theory Spec2Isabelle
  imports Main "HOL-Library.Word"
begin

section \<open>JavaScript values and failures\<close>

text \<open>
  The values that \<^verbatim>\<open>JSON.parse\<close> produces and \<^verbatim>\<open>JSON.stringify\<close> consumes in
  \<^verbatim>\<open>src/scripts/story.ts\<close>. An object is an association list in property order (the
  keys of one object are distinct). \<open>JDate\<close> is a \<^verbatim>\<open>Date\<close> object: its time value in
  milliseconds, or \<open>None\<close> for an invalid date. Numbers are never inspected by this
  program; \<open>JNum\<close> carries an integer.
\<close>

datatype jv =
    JNull
  | JBool bool
  | JNum int
  | JStr string
  | JDate "int option"
  | JArr "jv list"
  | JObj "(string \<times> jv) list"

text \<open>
  A rejected promise or a thrown exception is a value: \<open>IOError p\<close> for a file-system
  call on path \<open>p\<close> that fails, \<open>SyntaxError\<close> for \<^verbatim>\<open>JSON.parse\<close> on text that is
  not JSON, \<open>TypeError\<close> for the exception of that name (a property of \<^verbatim>\<open>null\<close> read, a
  property of a primitive value assigned in strict mode, a value called that is not a
  function).
\<close>

datatype error = IOError string | SyntaxError | TypeError

section \<open>Reading a value\<close>

text \<open>
  \<open>getProp v k\<close> reads the property \<open>k\<close> of an object, \<open>None\<close> being \<^verbatim>\<open>undefined\<close> (on a value
  that is not \<^verbatim>\<open>null\<close>, for the names this module reads: none is an index or a property
  that arrays, strings or dates have); \<open>is_leaf\<close> holds of a value with no
  properties or elements to walk into; \<open>is_scalar\<close> holds of the values the fields of
  the interface \<^verbatim>\<open>StoryInfo\<close> have: strings and dates.
\<close>

fun getProp :: "jv \<Rightarrow> string \<Rightarrow> jv option" where
  "getProp (JObj kvs) k = map_of kvs k"
| "getProp v k = None"


fun is_scalar :: "jv \<Rightarrow> bool" where
  "is_scalar (JStr s) = True"
| "is_scalar (JDate d) = True"
| "is_scalar v = False"

section \<open>What the module imports\<close>

text \<open>
  \<^verbatim>\<open>strings.fileNames\<close> and \<^verbatim>\<open>strings.navigationKeywords\<close> of \<^verbatim>\<open>./strings\<close>; the
  constants themselves are not part of the sources at hand, so they are fields.
  The keyword \<^verbatim>\<open>strings.navigationKeywords.end\<close> is the field \<open>end_tag\<close>.
\<close>

record fileNames =
  collectionsFolder :: string
  workspaceFolder :: string
  scenesFolder :: string
  resourcesFolder :: string
  core :: string
  thumbnail :: string
  firstScene :: string
  secondScene :: string

record navigationKeywords =
  end_tag :: string

record strings =
  fileNames :: fileNames
  navigationKeywords :: navigationKeywords

text \<open>
  Everything \<^verbatim>\<open>story.ts\<close> uses and does not define is a field of the environment:
  \<^item> \<open>sep\<close>: the platform's path separator of \<^verbatim>\<open>@tauri-apps/api/path\<close>;
  \<^item> \<open>joinPath\<close>, \<open>sanitizePath\<close>, \<open>convertAbsoluteToRelative\<close>, \<open>getObjFromPath\<close>:
    the helpers of \<^verbatim>\<open>./utils\<close>. The reviver and the replacer hand them a value of
    type \<^verbatim>\<open>any\<close>, so that argument is a \<open>jv\<close>; their results are used as strings;
  \<^item> \<open>collectionsPath\<close>, \<open>workspacePath\<close>: the module constants, computed once when
    the module loads;
  \<^item> \<open>templateStoryInfo\<close>, \<open>templateSceneInfo1\<close>, \<open>templateSceneInfo2\<close>,
    \<open>bookUint8Array\<close>: the template data;
  \<^item> \<open>newDate\<close>: the time value of \<^verbatim>\<open>new Date(value)\<close>; \<open>toISOString\<close>: the text of a
    valid date; \<open>JSON_parse\<close>: the grammar of \<^verbatim>\<open>JSON.parse\<close> (\<open>None\<close> where it throws);
    \<open>JSON_text\<close>: the text \<^verbatim>\<open>JSON.stringify\<close> prints for a tree;
  \<^item> \<open>looseEquals v s\<close>: the result of the comparison \<^verbatim>\<open>v == s\<close> of JavaScript for a string
    \<open>s\<close> and a value \<open>v\<close> that is a number, a boolean, an array, a date or another
    object, where the language converts an operand first (\<open>None\<close> where the conversion
    throws a \<^verbatim>\<open>TypeError\<close>).
\<close>

record env =
  sep :: char
  joinPath :: "string \<Rightarrow> jv \<Rightarrow> string"
  sanitizePath :: "string \<Rightarrow> string"
  convertAbsoluteToRelative :: "jv \<Rightarrow> string \<Rightarrow> string"
  getObjFromPath :: "string \<Rightarrow> string"
  strings :: strings
  collectionsPath :: string
  workspacePath :: string
  templateStoryInfo :: "string \<Rightarrow> string \<Rightarrow> string \<Rightarrow> jv"
  templateSceneInfo1 :: jv
  templateSceneInfo2 :: jv
  bookUint8Array :: "8 word list"
  newDate :: "jv \<Rightarrow> int option"
  toISOString :: "int \<Rightarrow> string"
  JSON_parse :: "string \<Rightarrow> jv option"
  JSON_text :: "jv \<Rightarrow> string"
  looseEquals :: "jv \<Rightarrow> string \<Rightarrow> bool option"

section \<open>The file system\<close>

text \<open>
  The state behind \<^verbatim>\<open>@tauri-apps/api/fs\<close>: the files by path, what \<^verbatim>\<open>readDir\<close> lists
  for a directory (the \<^verbatim>\<open>path\<close> of each entry, in order), the directories created, and
  the paths a write or a \<^verbatim>\<open>createDir\<close> succeeds on. A listing is part of the state as
  given: no operation below reads a directory after writing into it. Reading a binary
  file as text fails. \<^verbatim>\<open>createDir\<close> is called with \<^verbatim>\<open>recursive\<close>; the model records the
  directory named.
\<close>

datatype fcontent = Text string | Binary "8 word list"

record fsys =
  files :: "string \<rightharpoonup> fcontent"
  dirEntries :: "string \<rightharpoonup> string list"
  dirs :: "string set"
  writable :: "string \<Rightarrow> bool"

definition readTextFile :: "fsys \<Rightarrow> string \<Rightarrow> error + string" where
  "readTextFile fs p =
     (case files fs p of Some (Text t) \<Rightarrow> Inr t | _ \<Rightarrow> Inl (IOError p))"

definition readDir :: "fsys \<Rightarrow> string \<Rightarrow> error + string list" where
  "readDir fs p =
     (case dirEntries fs p of Some es \<Rightarrow> Inr es | None \<Rightarrow> Inl (IOError p))"

definition writeTextFile :: "fsys \<Rightarrow> string \<Rightarrow> string \<Rightarrow> error + fsys" where
  "writeTextFile fs p t =
     (if writable fs p then Inr (fs\<lparr>files := (files fs)(p \<mapsto> Text t)\<rparr>)
      else Inl (IOError p))"

definition writeBinaryFile :: "fsys \<Rightarrow> string \<Rightarrow> 8 word list \<Rightarrow> error + fsys" where
  "writeBinaryFile fs p bs =
     (if writable fs p then Inr (fs\<lparr>files := (files fs)(p \<mapsto> Binary bs)\<rparr>)
      else Inl (IOError p))"

definition createDir :: "fsys \<Rightarrow> string \<Rightarrow> error + fsys" where
  "createDir fs p =
     (if writable fs p then Inr (fs\<lparr>dirs := insert p (dirs fs)\<rparr>)
      else Inl (IOError p))"

section \<open>JSON.parse with a reviver\<close>

text \<open>The property name of an array index: its decimal digits.\<close>

fun string_of_nat :: "nat \<Rightarrow> string" where
  "string_of_nat n =
     (if n < 10 then [char_of (48 + n)]
      else string_of_nat (n div 10) @ [char_of (48 + n mod 10)])"

declare string_of_nat.simps [simp del]

text \<open>Left to right, stopping at the first failure.\<close>

fun traverse :: "('a \<Rightarrow> error + 'b) \<Rightarrow> 'a list \<Rightarrow> error + 'b list" where
  "traverse f [] = Inr []"
| "traverse f (x # xs) =
     (case f x of
        Inl e \<Rightarrow> Inl e
      | Inr y \<Rightarrow> (case traverse f xs of Inl e \<Rightarrow> Inl e | Inr ys \<Rightarrow> Inr (y # ys)))"

lemma traverse_cong [fundef_cong]:
  "xs = ys \<Longrightarrow> (\<And>x. x \<in> set ys \<Longrightarrow> f x = g x) \<Longrightarrow> traverse f xs = traverse g ys"
  by (induction ys arbitrary: xs) (auto split: sum.splits)

lemma enumerate_size [termination_simp]:
  "(i, x) \<in> set (enumerate n xs) \<Longrightarrow> size (x::jv) < Suc (size_list size xs)"
proof -
  assume "(i, x) \<in> set (enumerate n xs)"
  then have "x \<in> set xs"
    by (auto simp: in_set_enumerate_eq)
  then show ?thesis
    by (induction xs) auto
qed

text \<open>
  The walk of \<^verbatim>\<open>JSON.parse(text, reviver)\<close> over the parsed value: the elements of an
  array and the properties of an object first, each replaced by what the walk returns
  for it, then the reviver on the holder's property itself. No reviver of this module
  returns \<^verbatim>\<open>undefined\<close>, so no property is deleted.
\<close>

fun internalize :: "(string \<Rightarrow> jv \<Rightarrow> error + jv) \<Rightarrow> string \<Rightarrow> jv \<Rightarrow> error + jv" where
  "internalize reviver name (JArr xs) =
     (case traverse (\<lambda>(i, x). internalize reviver (string_of_nat i) x) (enumerate 0 xs) of
        Inl e \<Rightarrow> Inl e
      | Inr ys \<Rightarrow> reviver name (JArr ys))"
| "internalize reviver name (JObj kvs) =
     (case traverse (\<lambda>(k, v). map_sum id (Pair k) (internalize reviver k v)) kvs of
        Inl e \<Rightarrow> Inl e
      | Inr kvs' \<Rightarrow> reviver name (JObj kvs'))"
| "internalize reviver name v = reviver name v"

section \<open>Stories\<close>

datatype StoryLocation = Collections | Workspace





section \<open>JSON.stringify\<close>

text \<open>
  \<^verbatim>\<open>JSON.stringify\<close> calls \<^verbatim>\<open>toJSON\<close> on a value that has one before the replacer
  sees it: a \<^verbatim>\<open>Date\<close> becomes its ISO text, or \<^verbatim>\<open>null\<close> when it is invalid.
\<close>

fun toJSON :: "env \<Rightarrow> jv \<Rightarrow> jv" where
  "toJSON E (JDate (Some t)) = JStr (toISOString E t)"
| "toJSON E (JDate None) = JNull"
| "toJSON E v = v"

text \<open>The replacer of \<^verbatim>\<open>writeStoryInfoToDisk\<close>.\<close>

definition storyInfoReplacer :: "env \<Rightarrow> string \<Rightarrow> string \<Rightarrow> jv \<Rightarrow> jv" where
  "storyInfoReplacer E baseDir key v =
     (if key = ''thumbnail'' \<or> key = ''entry_point'' then JStr (convertAbsoluteToRelative E v baseDir)
      else if key = ''base_dir'' then JStr []
      else v)"

lemma storyInfoReplacer_children:
  "storyInfoReplacer E baseDir key (toJSON E v) = JObj kvs \<Longrightarrow> v = JObj kvs"
  "storyInfoReplacer E baseDir key (toJSON E v) = JArr xs \<Longrightarrow> v = JArr xs"
  by (cases "(E, v)" rule: toJSON.cases; simp add: storyInfoReplacer_def split: if_splits)+

lemma storyInfoReplacer_obj_size:
  assumes "storyInfoReplacer E baseDir key (toJSON E v) = JObj kvs" and "(k, x) \<in> set kvs"
  shows "size x < size v"
proof -
  from assms(1) have "v = JObj kvs"
    by (rule storyInfoReplacer_children)
  moreover from assms(2) have "size x < Suc (size_list (size_prod (\<lambda>_. 0) size) kvs)"
    by (induction kvs) auto
  ultimately show ?thesis by simp
qed

lemma storyInfoReplacer_arr_size:
  assumes "storyInfoReplacer E baseDir key (toJSON E v) = JArr xs"
    and "(i, x) \<in> set (enumerate n xs)"
  shows "size x < size v"
proof -
  from assms(1) have "v = JArr xs"
    by (rule storyInfoReplacer_children)
  with enumerate_size [OF assms(2)] show ?thesis by simp
qed

text \<open>
  The tree that \<^verbatim>\<open>JSON.stringify(data, replacer)\<close> prints, property by property:
  \<^verbatim>\<open>toJSON\<close>, then the replacer, then the properties of what the replacer returned.
  A \<^verbatim>\<open>Date\<close> left after the replacer has no enumerable property and prints as an
  empty object.
\<close>

function serializeJSONProperty :: "env \<Rightarrow> string \<Rightarrow> string \<Rightarrow> jv \<Rightarrow> jv" where
  "serializeJSONProperty E baseDir key v =
     (case storyInfoReplacer E baseDir key (toJSON E v) of
        JObj kvs \<Rightarrow> JObj (map (\<lambda>(k, x). (k, serializeJSONProperty E baseDir k x)) kvs)
      | JArr xs \<Rightarrow>
          JArr (map (\<lambda>(i, x). serializeJSONProperty E baseDir (string_of_nat i) x) (enumerate 0 xs))
      | JDate d \<Rightarrow> JObj []
      | w \<Rightarrow> w)"
  by pat_completeness auto
termination
  by (relation "measure (\<lambda>(E, baseDir, key, v). size v)")
    (auto intro: storyInfoReplacer_obj_size storyInfoReplacer_arr_size)

declare serializeJSONProperty.simps [simp del]

text \<open>\<^verbatim>\<open>JSON.stringify(data, null)\<close>: the same walk with no replacer.\<close>

fun serializePlain :: "env \<Rightarrow> jv \<Rightarrow> jv" where
  "serializePlain E (JObj kvs) = JObj (map (\<lambda>(k, x). (k, serializePlain E x)) kvs)"
| "serializePlain E (JArr xs) = JArr (map (serializePlain E) xs)"
| "serializePlain E v = toJSON E v"

definition writeStoryInfoToDisk :: "env \<Rightarrow> fsys \<Rightarrow> jv \<Rightarrow> string \<Rightarrow> error + fsys" where
  "writeStoryInfoToDisk E fs data baseDir =
     (let JSONData = JSON_text E (serializeJSONProperty E baseDir [] data)
      in writeTextFile fs (joinPath E baseDir (JStr (core (fileNames (strings E))))) JSONData)"

section \<open>Scenes\<close>

record ExtraSceneInfo =
  base_scene_info :: jv
  scene_name :: string
  scene_path :: string

text \<open>
  \<^verbatim>\<open>String.prototype.split\<close> and \<^verbatim>\<open>Array.prototype.join\<close> on the one-character
  separator; \<open>split_sep\<close> never returns the empty list, so the first branch of its
  \<open>case\<close> is never taken.
\<close>

fun split_sep :: "char \<Rightarrow> string \<Rightarrow> string list" where
  "split_sep c [] = [[]]"
| "split_sep c (x # xs) =
     (if x = c then [] # split_sep c xs
      else (case split_sep c xs of [] \<Rightarrow> [[x]] | y # ys \<Rightarrow> (x # y) # ys))"

fun join_sep :: "char \<Rightarrow> string list \<Rightarrow> string" where
  "join_sep c [] = []"
| "join_sep c [x] = x"
| "join_sep c (x # y # ys) = x @ c # join_sep c (y # ys)"

text \<open>\<^verbatim>\<open>pop()\<close> drops the last element and leaves an empty array empty: \<open>butlast\<close>.\<close>

definition resolveBaseDirFromScenePath :: "env \<Rightarrow> string \<Rightarrow> string" where
  "resolveBaseDirFromScenePath E scenePath =
     (let splittedScenePath = split_sep (sep E) (sanitizePath E scenePath)
      in join_sep (sep E) (butlast (butlast splittedScenePath)))"

text \<open>
  \<^verbatim>\<open>String.prototype.replace\<close> with a string pattern: the first occurrence only. (The
  replacement here is the empty string, so its \<^verbatim>\<open>$\<close> patterns play no part.)
\<close>

fun replace_first :: "string \<Rightarrow> string \<Rightarrow> string \<Rightarrow> string" where
  "replace_first pat rep [] = (if pat = [] then rep else [])"
| "replace_first pat rep (c # cs) =
     (if take (length pat) (c # cs) = pat then rep @ drop (length pat) (c # cs)
      else c # replace_first pat rep cs)"

text \<open>
  \<^verbatim>\<open>resolveSceneActions\<close> is declared on the interface \<^verbatim>\<open>SceneActions\<close>, and the reviver
  hands it the value of \<^verbatim>\<open>scene_actions\<close> as it was parsed (of type \<^verbatim>\<open>any\<close>), with no
  test of its shape. The model follows JavaScript on every value. A property that is
  absent reads as \<^verbatim>\<open>undefined\<close>, here \<open>None\<close>; a property that the source sets to
  \<^verbatim>\<open>undefined\<close> is left out of the model's object, where it reads as \<^verbatim>\<open>undefined\<close> as
  well.
\<close>

text \<open>What \<^verbatim>\<open>if (value)\<close> takes for true.\<close>

fun truthy :: "jv \<Rightarrow> bool" where
  "truthy JNull = False"
| "truthy (JBool b) = b"
| "truthy (JNum n) = (n \<noteq> 0)"
| "truthy (JStr s) = (s \<noteq> [])"
| "truthy v = True"

text \<open>
  \<^verbatim>\<open>value == strings.navigationKeywords.end\<close>: two strings are equal when their texts
  are, \<^verbatim>\<open>null\<close> equals no string, and every other value is converted first.
\<close>

definition equalsEnd :: "env \<Rightarrow> jv \<Rightarrow> error + bool" where
  "equalsEnd E v =
     (case v of
        JStr s \<Rightarrow> Inr (s = end_tag (navigationKeywords (strings E)))
      | JNull \<Rightarrow> Inr False
      | _ \<Rightarrow>
          (case looseEquals E v (end_tag (navigationKeywords (strings E))) of
             None \<Rightarrow> Inl TypeError
           | Some b \<Rightarrow> Inr b))"

text \<open>
  The function \<^verbatim>\<open>resolveSceneActions\<close> writes the same immediately-invoked arrow
  function twice, once per kind of destination; \<open>resolveDestination\<close> is that function,
  on the value read (\<^verbatim>\<open>value == null\<close> holds of \<^verbatim>\<open>null\<close> and of \<^verbatim>\<open>undefined\<close>).
\<close>

definition resolveDestination :: "env \<Rightarrow> string \<Rightarrow> jv option \<Rightarrow> error + jv option" where
  "resolveDestination E baseDir v =
     (case v of
        None \<Rightarrow> Inr None
      | Some JNull \<Rightarrow> Inr (Some JNull)
      | Some w \<Rightarrow>
          (case equalsEnd E w of
             Inl e \<Rightarrow> Inl e
           | Inr True \<Rightarrow> Inr (Some w)
           | Inr False \<Rightarrow> Inr (Some (JStr (joinPath E baseDir w)))))"

text \<open>
  The function given to \<^verbatim>\<open>map\<close>: it reads \<^verbatim>\<open>action\<close> and \<^verbatim>\<open>destination\<close> of the entry
  (which throws on \<^verbatim>\<open>null\<close>) and builds a new object of the two.
\<close>

fun optProp :: "string \<Rightarrow> jv option \<Rightarrow> (string \<times> jv) list" where
  "optProp k None = []"
| "optProp k (Some v) = [(k, v)]"

fun resolveMultipleChoice :: "env \<Rightarrow> string \<Rightarrow> jv \<Rightarrow> error + jv" where
  "resolveMultipleChoice E baseDir JNull = Inl TypeError"
| "resolveMultipleChoice E baseDir multipleChoice =
     (case resolveDestination E baseDir (getProp multipleChoice ''destination'') of
        Inl e \<Rightarrow> Inl e
      | Inr d \<Rightarrow>
          Inr (JObj (optProp ''action'' (getProp multipleChoice ''action'')
                     @ optProp ''destination'' d)))"

text \<open>
  An assignment to a property replaces its value where it stands, or adds the property
  at the end.
\<close>

fun setProp :: "string \<Rightarrow> jv \<Rightarrow> (string \<times> jv) list \<Rightarrow> (string \<times> jv) list" where
  "setProp k v [] = [(k, v)]"
| "setProp k v ((k', v') # kvs) =
     (if k' = k then (k, v) # kvs else (k', v') # setProp k v kvs)"

text \<open>
  The \<^verbatim>\<open>if\<close> block of \<^verbatim>\<open>resolveSceneActions\<close>, on the properties of the object: a
  \<^verbatim>\<open>multiple_choice\<close> that is absent or not true is left alone; one that is true and not
  an array has no function \<^verbatim>\<open>map\<close> to call.
\<close>

definition resolveChoices :: "env \<Rightarrow> string \<Rightarrow> (string \<times> jv) list \<Rightarrow> error + (string \<times> jv) list" where
  "resolveChoices E baseDir kvs =
     (case map_of kvs ''multiple_choice'' of
        None \<Rightarrow> Inr kvs
      | Some m \<Rightarrow>
          if truthy m then
            (case m of
               JArr xs \<Rightarrow>
                 (case traverse (resolveMultipleChoice E baseDir) xs of
                    Inl e \<Rightarrow> Inl e
                  | Inr ys \<Rightarrow> Inr (setProp ''multiple_choice'' (JArr ys) kvs))
             | _ \<Rightarrow> Inl TypeError)
          else Inr kvs)"

text \<open>
  On an object, the block and then the assignment of \<^verbatim>\<open>single_choice\<close>. An array or a
  date has neither property, and the assignment of \<^verbatim>\<open>undefined\<close> leaves it as it reads.
  On \<^verbatim>\<open>null\<close> the first read throws; on a boolean, a number or a string both reads give
  \<^verbatim>\<open>undefined\<close> and the assignment throws, the module being in strict mode.
\<close>

fun resolveSceneActions :: "env \<Rightarrow> jv \<Rightarrow> string \<Rightarrow> error + jv" where
  "resolveSceneActions E (JObj kvs) baseDir =
     (case resolveChoices E baseDir kvs of
        Inl e \<Rightarrow> Inl e
      | Inr kvs1 \<Rightarrow>
          (case resolveDestination E baseDir (map_of kvs1 ''single_choice'') of
             Inl e \<Rightarrow> Inl e
           | Inr None \<Rightarrow> Inr (JObj kvs1)
           | Inr (Some d) \<Rightarrow> Inr (JObj (setProp ''single_choice'' d kvs1))))"
| "resolveSceneActions E (JArr xs) baseDir = Inr (JArr xs)"
| "resolveSceneActions E (JDate d) baseDir = Inr (JDate d)"
| "resolveSceneActions E v baseDir = Inl TypeError"




text \<open>The reviver of \<^verbatim>\<open>resolveSceneInfo\<close>.\<close>

definition sceneInfoReviver :: "env \<Rightarrow> string \<Rightarrow> string \<Rightarrow> jv \<Rightarrow> error + jv" where
  "sceneInfoReviver E baseDir key v =
     (if key = ''media'' then Inr (if v \<noteq> JNull then JStr (joinPath E baseDir v) else JNull)
      else if key = ''scene_actions'' then resolveSceneActions E v baseDir
      else Inr v)"

definition resolveSceneInfo :: "env \<Rightarrow> fsys \<Rightarrow> string \<Rightarrow> error + jv" where
  "resolveSceneInfo E fs scenePath =
     (case readTextFile fs scenePath of
        Inl e \<Rightarrow> Inl e
      | Inr sceneInfoAsJSON \<Rightarrow>
          (let baseDir = resolveBaseDirFromScenePath E scenePath
           in case JSON_parse E sceneInfoAsJSON of
                None \<Rightarrow> Inl SyntaxError
              | Some parsed \<Rightarrow> internalize (sceneInfoReviver E baseDir) [] parsed))"

fun scenesLoop :: "env \<Rightarrow> fsys \<Rightarrow> string list \<Rightarrow> ExtraSceneInfo list \<Rightarrow> ExtraSceneInfo list" where
  "scenesLoop E fs [] sceneInfos = sceneInfos"
| "scenesLoop E fs (scenePath # rest) sceneInfos =
     (case resolveSceneInfo E fs scenePath of
        Inl e \<Rightarrow> scenesLoop E fs rest sceneInfos
      | Inr sceneInfo \<Rightarrow>
          scenesLoop E fs rest
            (sceneInfos @
             [\<lparr>base_scene_info = sceneInfo,
               scene_name = replace_first ''.json'' [] (getObjFromPath E scenePath),
               scene_path = scenePath\<rparr>]))"

definition resolveScenesFromFS :: "env \<Rightarrow> fsys \<Rightarrow> string \<Rightarrow> error + ExtraSceneInfo list" where
  "resolveScenesFromFS E fs baseDir =
     (case readDir fs (joinPath E baseDir (JStr (scenesFolder (fileNames (strings E))))) of
        Inl e \<Rightarrow> Inl e
      | Inr scenes \<Rightarrow> Inr (scenesLoop E fs scenes []))"

section \<open>Creating a story\<close>

text \<open>
  The identifier that \<^verbatim>\<open>crypto.randomUUID()\<close> or \<^verbatim>\<open>uuidv4()\<close> draws is the argument
  \<open>uuidDirName\<close>. The two \<^verbatim>\<open>createDir\<close> calls are not awaited: a failure of one is not
  seen by the function, and the model runs them before the writes.
\<close>

definition createNewStory ::
    "env \<Rightarrow> fsys \<Rightarrow> string \<Rightarrow> string \<Rightarrow> string \<Rightarrow> string \<Rightarrow> error + (fsys \<times> string)" where
  "createNewStory E fs uuidDirName story_title story_description story_author =
     (let names = fileNames (strings E);
          baseDir = joinPath E (workspacePath E) (JStr uuidDirName);
          scenesDir = joinPath E baseDir (JStr (scenesFolder names));
          resourcesDir = joinPath E baseDir (JStr (resourcesFolder names));
          fs1 = (case createDir fs scenesDir of Inl e \<Rightarrow> fs | Inr fs' \<Rightarrow> fs');
          fs2 = (case createDir fs1 resourcesDir of Inl e \<Rightarrow> fs1 | Inr fs' \<Rightarrow> fs');
          newStoryInfo = templateStoryInfo E story_title story_description story_author;
          newStoryInfoAsJSON = JSON_text E (serializePlain E newStoryInfo)
      in case writeTextFile fs2 (joinPath E baseDir (JStr (core names))) newStoryInfoAsJSON of
           Inl e \<Rightarrow> Inl e
         | Inr fs3 \<Rightarrow>
             (case writeBinaryFile fs3 (joinPath E resourcesDir (JStr (thumbnail names)))
                     (bookUint8Array E) of
                Inl e \<Rightarrow> Inl e
              | Inr fs4 \<Rightarrow>
                  (case writeTextFile fs4 (joinPath E scenesDir (JStr (firstScene names)))
                          (JSON_text E (serializePlain E (templateSceneInfo1 E))) of
                     Inl e \<Rightarrow> Inl e
                   | Inr fs5 \<Rightarrow>
                       (case writeTextFile fs5 (joinPath E scenesDir (JStr (secondScene names)))
                               (JSON_text E (serializePlain E (templateSceneInfo2 E))) of
                          Inl e \<Rightarrow> Inl e
                        | Inr fs6 \<Rightarrow> Inr (fs6, baseDir)))))"

section \<open>The router\<close>

text \<open>
  A route's component is a component or a function that imports one when the route is
  first visited; \<open>LazyImport m\<close> is \<^verbatim>\<open>() => import(m)\<close>. A route with no \<^verbatim>\<open>props\<close>
  field has \<open>props = False\<close>, the default of the router.
\<close>

datatype component = Component string | LazyImport string

record RouteRecordRaw =
  path :: string
  name :: string
  component :: component
  props :: bool

definition routes :: "RouteRecordRaw list" where
  "routes =
     [\<lparr>path = ''/'', name = ''Home'',
       component = LazyImport ''../views/HomeView.vue'', props = False\<rparr>,
      \<lparr>path = ''/playoptions'', name = ''PlayOptions'',
       component = LazyImport ''../views/PlayerViews/PlayOptionsView.vue'', props = False\<rparr>,
      \<lparr>path = ''/createoptions'', name = ''CreateOptions'',
       component = LazyImport ''../views/EditorViews/CreateOptionsView.vue'', props = False\<rparr>,
      \<lparr>path = ''/storyplayback/:storyInfoDir'', name = ''StoryPlayBack'',
       component = LazyImport ''../views/PlayerViews/StoryPlaybackView.vue'', props = True\<rparr>,
      \<lparr>path = ''/editoroverview/:storyInfoDir'', name = ''EditorOverview'',
       component = LazyImport ''../views/EditorViews/EditorOverviewView.vue'', props = True\<rparr>,
      \<lparr>path = ''/sceneseditor/:baseDir'', name = ''ScenesEditor'',
       component = LazyImport ''../views/EditorViews/ScenesEditorView.vue'', props = True\<rparr>]"

text \<open>The parameters of a path pattern: its segments that start with a colon.\<close>

definition path_params :: "string \<Rightarrow> string list" where
  "path_params p =
     map tl (filter (\<lambda>seg. seg \<noteq> [] \<and> hd seg = CHR '':'') (split_sep CHR ''/'' p))"

definition is_lazy :: "component \<Rightarrow> bool" where
  "is_lazy c = (case c of LazyImport m \<Rightarrow> True | Component m \<Rightarrow> False)"

section \<open>The path helpers\<close>

text \<open>
  Modelled from the spec: the path helpers \<^verbatim>\<open>sanitizePath\<close>, \<^verbatim>\<open>joinPath\<close>,
  \<^verbatim>\<open>convertAbsoluteToRelative\<close> and \<^verbatim>\<open>getObjFromPath\<close> of \<^verbatim>\<open>./utils\<close> are missing from
  the sources. The specification says they "join/sanitize/relativize filesystem paths
  across platform separators", that the absolute path is "base directory + relative
  value", and that the conversion back yields the "base-dir-relative form". A separator
  is a slash or a backslash; \<^verbatim>\<open>sceneNameToRelativePath\<close> shows that the relative form on
  disk uses the slash.
\<close>

definition is_separator :: "char \<Rightarrow> bool" where
  "is_separator c = (c = CHR ''/'' \<or> c = CHR 0x5C)"

text \<open>Modelled from the spec: \<^verbatim>\<open>sanitizePath\<close>, every separator replaced by the one given.\<close>

definition spec_sanitizePath :: "char \<Rightarrow> string \<Rightarrow> string" where
  "spec_sanitizePath s p = map (\<lambda>c. if is_separator c then s else c) p"

text \<open>
  Modelled from the spec: the text of a path argument of type \<^verbatim>\<open>any\<close>. The spec gives
  no meaning to the path of a value that is not a string; the model takes the empty
  string for it.
\<close>

definition path_arg :: "jv \<Rightarrow> string" where
  "path_arg v = (case v of JStr s \<Rightarrow> s | _ \<Rightarrow> [])"

text \<open>Modelled from the spec: \<^verbatim>\<open>joinPath\<close>, "base directory + relative value", sanitized.\<close>

definition spec_joinPath :: "char \<Rightarrow> string \<Rightarrow> jv \<Rightarrow> string" where
  "spec_joinPath s a b = spec_sanitizePath s (a @ s # path_arg b)"

text \<open>
  Modelled from the spec: \<^verbatim>\<open>convertAbsoluteToRelative\<close>, the path below the base
  directory, in the form stored on disk.
\<close>

definition spec_convertAbsoluteToRelative :: "char \<Rightarrow> jv \<Rightarrow> string \<Rightarrow> string" where
  "spec_convertAbsoluteToRelative s a baseDir =
     (let absolute = spec_sanitizePath s (path_arg a);
          pre = spec_sanitizePath s baseDir @ [s]
      in spec_sanitizePath CHR ''/''
           (if take (length pre) absolute = pre then drop (length pre) absolute else absolute))"

text \<open>Modelled from the spec: \<^verbatim>\<open>getObjFromPath\<close>, the last component of a path.\<close>

definition spec_getObjFromPath :: "char \<Rightarrow> string \<Rightarrow> string" where
  "spec_getObjFromPath s p = last (split_sep s (spec_sanitizePath s p))"

text \<open>An environment with these four helpers in place of its own.\<close>

definition spec_utils :: "env \<Rightarrow> env" where
  "spec_utils E =
     E\<lparr>joinPath := spec_joinPath (sep E),
       sanitizePath := spec_sanitizePath (sep E),
       convertAbsoluteToRelative := spec_convertAbsoluteToRelative (sep E),
       getObjFromPath := spec_getObjFromPath (sep E)\<rparr>"

section \<open>An example installation\<close>

text \<open>
  Concrete data to run the functions on: a POSIX separator, the helpers above, file
  names and an end keyword chosen for the example, and four texts that the example's
  parser accepts. \<open>''STORY''\<close> stands for the text of a story file, \<open>''SCENE''\<close> and
  \<open>''SPARSE''\<close> for the texts of two scene files and \<open>''DRAFT''\<close> for the text of a story
  file whose thumbnail is \<^verbatim>\<open>null\<close>; every other text is rejected. Every destination of
  the example is a string or \<^verbatim>\<open>null\<close>, so \<open>looseEquals\<close> is never asked.
\<close>

definition example_strings :: strings where
  "example_strings =
     \<lparr>fileNames =
        \<lparr>collectionsFolder = ''collections'', workspaceFolder = ''workspace'',
         scenesFolder = ''scenes'', resourcesFolder = ''resources'',
         core = ''core.json'', thumbnail = ''book.png'',
         firstScene = ''first.json'', secondScene = ''second.json''\<rparr>,
      navigationKeywords = \<lparr>end_tag = ''END''\<rparr>\<rparr>"

definition example_story :: jv where
  "example_story =
     JObj [(''title'', JStr ''A''), (''description'', JStr ''B''), (''author'', JStr ''C''),
           (''creation_date'', JStr ''1970-01-01T00:00:00.000Z''),
           (''thumbnail'', JStr ''resources/book.png''),
           (''entry_point'', JStr ''scenes/first.json''),
           (''base_dir'', JStr [])]"

definition example_scene :: jv where
  "example_scene =
     JObj [(''center_text'', JNull), (''narration_text'', JStr ''N''),
           (''background_color'', JNull), (''media'', JStr ''resources/m.png''),
           (''scene_actions'',
            JObj [(''multiple_choice'',
                   JArr [JObj [(''action'', JStr ''go''), (''destination'', JStr ''scenes/second.json'')],
                         JObj [(''action'', JStr ''stop''), (''destination'', JStr ''END'')]]),
                  (''single_choice'', JNull)])]"

text \<open>The story \<open>s1\<close> as \<^verbatim>\<open>resolveStoryInfo\<close> holds it in memory.\<close>

definition example_info :: jv where
  "example_info =
     JObj [(''title'', JStr ''A''), (''description'', JStr ''B''), (''author'', JStr ''C''),
           (''creation_date'', JDate (Some 0)),
           (''thumbnail'', JStr ''/app/collections/s1/resources/book.png''),
           (''entry_point'', JStr ''/app/collections/s1/scenes/first.json''),
           (''base_dir'', JStr ''/app/collections/s1'')]"

definition example_draft :: jv where
  "example_draft =
     JObj [(''title'', JStr ''D''), (''thumbnail'', JNull),
           (''entry_point'', JStr ''scenes/first.json''), (''base_dir'', JStr [])]"

text \<open>The scene \<open>first.json\<close> of \<open>s1\<close> as \<^verbatim>\<open>resolveSceneInfo\<close> holds it in memory.\<close>

definition example_scene_info :: jv where
  "example_scene_info =
     JObj [(''center_text'', JNull), (''narration_text'', JStr ''N''),
           (''background_color'', JNull),
           (''media'', JStr ''/app/collections/s1/resources/m.png''),
           (''scene_actions'',
            JObj [(''multiple_choice'',
                   JArr [JObj [(''action'', JStr ''go''),
                               (''destination'', JStr ''/app/collections/s1/scenes/second.json'')],
                         JObj [(''action'', JStr ''stop''), (''destination'', JStr ''END'')]]),
                  (''single_choice'', JNull)])]"

text \<open>
  A scene file whose \<^verbatim>\<open>scene_actions\<close> has no \<^verbatim>\<open>multiple_choice\<close> and ends the story; it
  is resolved to itself.
\<close>

definition example_sparse :: jv where
  "example_sparse =
     JObj [(''media'', JNull), (''scene_actions'', JObj [(''single_choice'', JStr ''END'')])]"

definition example_parse :: "string \<Rightarrow> jv option" where
  "example_parse t =
     (if t = ''STORY'' then Some example_story
      else if t = ''SCENE'' then Some example_scene
      else if t = ''SPARSE'' then Some example_sparse
      else if t = ''DRAFT'' then Some example_draft
      else None)"

definition example_env :: env where
  "example_env =
     spec_utils
       \<lparr>sep = CHR ''/'',
        joinPath = (\<lambda>a b. []), sanitizePath = (\<lambda>p. p),
        convertAbsoluteToRelative = (\<lambda>a b. []), getObjFromPath = (\<lambda>p. p),
        strings = example_strings,
        collectionsPath = ''/app/collections'', workspacePath = ''/app/workspace'',
        templateStoryInfo =
          (\<lambda>t d a. JObj [(''title'', JStr t), (''description'', JStr d), (''author'', JStr a),
                          (''creation_date'', JDate (Some 0)),
                          (''thumbnail'', JStr ''resources/book.png''),
                          (''entry_point'', JStr ''scenes/first.json''),
                          (''base_dir'', JStr [])]),
        templateSceneInfo1 = example_scene, templateSceneInfo2 = example_scene,
        bookUint8Array = [137, 80, 78, 71],
        newDate = (\<lambda>v. if v = JStr ''1970-01-01T00:00:00.000Z'' then Some 0 else None),
        toISOString = (\<lambda>t. ''1970-01-01T00:00:00.000Z''),
        JSON_parse = example_parse,
        JSON_text = (\<lambda>j. if j = example_story then ''STORY'' else ''OTHER''),
        looseEquals = (\<lambda>v s. Some False)\<rparr>"

text \<open>
  A collections directory with a story \<open>s1\<close>, whose core file parses, and an entry
  \<open>s2\<close>, whose core file does not; the scenes folder of the story lists three files
  that parse and one that does not. The workspace has the draft \<open>w1\<close>.
\<close>

definition example_fs :: fsys where
  "example_fs =
     \<lparr>files =
        [''/app/collections/s1/core.json'' \<mapsto> Text ''STORY'',
         ''/app/collections/s2/core.json'' \<mapsto> Text ''{'',
         ''/app/collections/s1/scenes/first.json'' \<mapsto> Text ''SCENE'',
         ''/app/collections/s1/scenes/notes.json.bak.json'' \<mapsto> Text ''SCENE'',
         ''/app/collections/s1/scenes/broken.json'' \<mapsto> Text ''?'',
         ''/app/collections/s1/scenes/sparse.json'' \<mapsto> Text ''SPARSE'',
         ''/app/workspace/w1/core.json'' \<mapsto> Text ''DRAFT''],
      dirEntries =
        [''/app/collections'' \<mapsto> [''/app/collections/s1'', ''/app/collections/s2''],
         ''/app/workspace'' \<mapsto> [''/app/workspace/w1''],
         ''/app/collections/s1/scenes'' \<mapsto>
           [''/app/collections/s1/scenes/first.json'',
            ''/app/collections/s1/scenes/notes.json.bak.json'',
            ''/app/collections/s1/scenes/broken.json'',
            ''/app/collections/s1/scenes/sparse.json'']],
      dirs = {''/app/collections'', ''/app/collections/s1'', ''/app/collections/s1/scenes''},
      writable = (\<lambda>p. True)\<rparr>"

section \<open>The story walk as a function\<close>


section \<open>The router's table\<close>

text \<open>
  C8. The router defines exactly six routes; the component of each is imported lazily;
  every route whose path has a parameter passes its parameters as props. The last
  conjunct lists, route by route, the path, its parameters and the \<^verbatim>\<open>props\<close> flag.
\<close>

theorem routes_six_lazy_props:
  "length routes = 6
   \<and> (\<forall>r \<in> set routes. is_lazy (component r))
   \<and> (\<forall>r \<in> set routes. path_params (path r) \<noteq> [] \<longrightarrow> props r)
   \<and> map (\<lambda>r. (path r, path_params (path r), props r)) routes =
       [(''/'', [], False),
        (''/playoptions'', [], False),
        (''/createoptions'', [], False),
        (''/storyplayback/:storyInfoDir'', [''storyInfoDir''], True),
        (''/editoroverview/:storyInfoDir'', [''storyInfoDir''], True),
        (''/sceneseditor/:baseDir'', [''baseDir''], True)]"
  by (simp add: routes_def is_lazy_def path_params_def)

theorem routes_six_lazy_props_witness:
  "path_params (path (routes ! 3)) = [''storyInfoDir''] \<and> props (routes ! 3)
   \<and> is_lazy (component (routes ! 3))"
proof -
  have m: "routes ! 3 \<in> set routes"
    by (simp add: routes_def)
  have p: "path_params (path (routes ! 3)) = [''storyInfoDir'']"
    by (simp add: routes_def path_params_def)
  from routes_six_lazy_props m p show ?thesis
    by auto
qed

section \<open>Resolving a story\<close>
















lemma example_joinPath [simp]: "joinPath example_env = spec_joinPath CHR ''/''"
  and example_sanitizePath [simp]: "sanitizePath example_env = spec_sanitizePath CHR ''/''"
  and example_convert [simp]:
    "convertAbsoluteToRelative example_env = spec_convertAbsoluteToRelative CHR ''/''"
  and example_getObj [simp]: "getObjFromPath example_env = spec_getObjFromPath CHR ''/''"
  and example_sep [simp]: "sep example_env = CHR ''/''"
  and example_strings_env [simp]: "strings example_env = example_strings"
  and example_parse_env [simp]: "JSON_parse example_env = example_parse"
  by (simp_all add: example_env_def spec_utils_def)




section \<open>Writing a story\<close>

lemma serialize_root_object:
  "serializeJSONProperty E baseDir [] (JObj kvs) =
     JObj (map (\<lambda>(k, x). (k, serializeJSONProperty E baseDir k x)) kvs)"
  by (subst serializeJSONProperty.simps) (simp add: storyInfoReplacer_def)

lemma serialize_path_key:
  "k = ''thumbnail'' \<or> k = ''entry_point'' \<Longrightarrow>
   serializeJSONProperty E baseDir k v = JStr (convertAbsoluteToRelative E (toJSON E v) baseDir)"
  by (subst serializeJSONProperty.simps) (auto simp: storyInfoReplacer_def)

lemma serialize_base_dir: "serializeJSONProperty E baseDir ''base_dir'' v = JStr []"
  by (subst serializeJSONProperty.simps) (simp add: storyInfoReplacer_def)

lemma serialize_scalar:
  assumes "k \<noteq> ''thumbnail''" "k \<noteq> ''entry_point''" "k \<noteq> ''base_dir''" "is_scalar v"
  shows "serializeJSONProperty E baseDir k v = toJSON E v"
proof (cases v)
  case (JStr s)
  with assms(1-3) show ?thesis
    by (subst serializeJSONProperty.simps) (simp add: storyInfoReplacer_def)
next
  case (JDate d)
  with assms(1-3) show ?thesis
    by (subst serializeJSONProperty.simps) (cases d; simp add: storyInfoReplacer_def)
qed (use assms(4) in simp_all)

lemma example_core_path:
  "joinPath example_env ''/app/collections/s1'' (JStr (core (fileNames (strings example_env))))
     = ''/app/collections/s1/core.json''"
  by (simp add: example_strings_def spec_joinPath_def spec_sanitizePath_def path_arg_def
      is_separator_def)

text \<open>
  C5. For a \<^verbatim>\<open>StoryInfo\<close> (an object whose properties are strings and dates) and a base
  directory, \<^verbatim>\<open>writeStoryInfoToDisk\<close> writes to the story's core file the text of this
  object: \<^verbatim>\<open>thumbnail\<close> and \<^verbatim>\<open>entry_point\<close> are
  \<^verbatim>\<open>convertAbsoluteToRelative(value, baseDir)\<close>, \<^verbatim>\<open>base_dir\<close> is the empty string, and
  every other property is serialized as it is (a string as itself, a date as
  \<^verbatim>\<open>toJSON\<close> gives it), in the same order.
\<close>

theorem writeStoryInfoToDisk_fields:
  assumes "\<forall>(k, v) \<in> set kvs. is_scalar v"
  shows "writeStoryInfoToDisk E fs (JObj kvs) baseDir =
           writeTextFile fs (joinPath E baseDir (JStr (core (fileNames (strings E)))))
             (JSON_text E
               (JObj (map (\<lambda>(k, v).
                        (k, if k = ''thumbnail'' \<or> k = ''entry_point''
                              then JStr (convertAbsoluteToRelative E (toJSON E v) baseDir)
                            else if k = ''base_dir'' then JStr []
                            else toJSON E v))
                      kvs)))"
proof -
  have eq: "map (\<lambda>(k, x). (k, serializeJSONProperty E baseDir k x)) kvs =
        map (\<lambda>(k, v).
               (k, if k = ''thumbnail'' \<or> k = ''entry_point''
                     then JStr (convertAbsoluteToRelative E (toJSON E v) baseDir)
                   else if k = ''base_dir'' then JStr []
                   else toJSON E v))
            kvs"
    using assms
    by (intro map_cong refl) (auto simp: serialize_path_key serialize_base_dir serialize_scalar)
  show ?thesis
    unfolding writeStoryInfoToDisk_def Let_def serialize_root_object eq ..
qed

theorem writeStoryInfoToDisk_fields_witness:
  "writeStoryInfoToDisk example_env example_fs example_info ''/app/collections/s1'' =
     Inr (example_fs\<lparr>files := (files example_fs)(''/app/collections/s1/core.json'' \<mapsto> Text ''STORY'')\<rparr>)"
proof -
  have h: "\<forall>(k, v) \<in> set
      [(''title'', JStr ''A''), (''description'', JStr ''B''), (''author'', JStr ''C''),
       (''creation_date'', JDate (Some 0)),
       (''thumbnail'', JStr ''/app/collections/s1/resources/book.png''),
       (''entry_point'', JStr ''/app/collections/s1/scenes/first.json''),
       (''base_dir'', JStr ''/app/collections/s1'')]. is_scalar v"
    by simp
  have t: "spec_convertAbsoluteToRelative CHR ''/'' (JStr ''/app/collections/s1/resources/book.png'')
             ''/app/collections/s1'' = ''resources/book.png''"
    by (simp add: spec_convertAbsoluteToRelative_def spec_sanitizePath_def path_arg_def
        is_separator_def)
  have e: "spec_convertAbsoluteToRelative CHR ''/'' (JStr ''/app/collections/s1/scenes/first.json'')
             ''/app/collections/s1'' = ''scenes/first.json''"
    by (simp add: spec_convertAbsoluteToRelative_def spec_sanitizePath_def path_arg_def
        is_separator_def)
  have d: "toISOString example_env 0 = ''1970-01-01T00:00:00.000Z''"
    by (simp add: example_env_def spec_utils_def)
  have j: "JSON_text example_env example_story = ''STORY''"
    by (simp add: example_env_def spec_utils_def)
  have w: "writeTextFile example_fs ''/app/collections/s1/core.json'' ''STORY'' =
     Inr (example_fs\<lparr>files := (files example_fs)(''/app/collections/s1/core.json'' \<mapsto> Text ''STORY'')\<rparr>)"
    by (simp add: writeTextFile_def example_fs_def)
  from writeStoryInfoToDisk_fields [OF h, of example_env example_fs "''/app/collections/s1''"]
  show ?thesis
    unfolding example_info_def example_core_path
    by (simp add: t e d j [unfolded example_story_def] w)
qed

section \<open>Reading a story and writing it back\<close>

lemma spec_utils_fields [simp]:
  "joinPath (spec_utils E) = spec_joinPath (sep E)"
  "sanitizePath (spec_utils E) = spec_sanitizePath (sep E)"
  "convertAbsoluteToRelative (spec_utils E) = spec_convertAbsoluteToRelative (sep E)"
  "getObjFromPath (spec_utils E) = spec_getObjFromPath (sep E)"
  "sep (spec_utils E) = sep E"
  "strings (spec_utils E) = strings E"
  "JSON_parse (spec_utils E) = JSON_parse E"
  "JSON_text (spec_utils E) = JSON_text E"
  by (simp_all add: spec_utils_def)

lemma spec_utils_example: "spec_utils example_env = example_env"
  by (simp add: example_env_def spec_utils_def)

lemma spec_sanitizePath_append:
  "spec_sanitizePath s (a @ b) = spec_sanitizePath s a @ spec_sanitizePath s b"
  by (simp add: spec_sanitizePath_def)

lemma spec_sanitizePath_idem:
  "is_separator s \<Longrightarrow> spec_sanitizePath s (spec_sanitizePath s p) = spec_sanitizePath s p"
  by (simp add: spec_sanitizePath_def)

lemma spec_sanitizePath_sep:
  "is_separator s \<Longrightarrow> spec_sanitizePath s' [s] = [s']"
  by (simp add: spec_sanitizePath_def)


lemma spec_sanitizePath_Cons:
  "spec_sanitizePath s (c # p) = (if is_separator c then s else c) # spec_sanitizePath s p"
  by (simp add: spec_sanitizePath_def)









section \<open>Paths rewritten while parsing\<close>

lemma example_base_dir:
  "resolveBaseDirFromScenePath example_env ''/app/collections/s1/scenes/first.json'' = ''/app/collections/s1''"
  by (simp add: resolveBaseDirFromScenePath_def spec_sanitizePath_def is_separator_def)

lemma example_resolve_scene:
  "resolveSceneInfo example_env example_fs ''/app/collections/s1/scenes/first.json'' = Inr example_scene_info"
  unfolding resolveSceneInfo_def example_base_dir Let_def
  by (simp add: readTextFile_def example_fs_def example_parse_def example_scene_def
      example_scene_info_def sceneInfoReviver_def resolveChoices_def resolveDestination_def
      equalsEnd_def example_strings_def
      spec_joinPath_def spec_sanitizePath_def is_separator_def path_arg_def
      string_of_nat.simps [of 0] string_of_nat.simps [of "Suc 0"])


lemma example_base_dir_other:
  "resolveBaseDirFromScenePath example_env ''/app/collections/s1/scenes/notes.json.bak.json''
     = ''/app/collections/s1''"
  "resolveBaseDirFromScenePath example_env ''/app/collections/s1/scenes/sparse.json''
     = ''/app/collections/s1''"
  by (simp_all add: resolveBaseDirFromScenePath_def spec_sanitizePath_def is_separator_def)

lemma example_resolve_notes:
  "resolveSceneInfo example_env example_fs ''/app/collections/s1/scenes/notes.json.bak.json''
     = Inr example_scene_info"
  unfolding resolveSceneInfo_def example_base_dir_other Let_def
  by (simp add: readTextFile_def example_fs_def example_parse_def example_scene_def
      example_scene_info_def sceneInfoReviver_def resolveChoices_def resolveDestination_def
      equalsEnd_def example_strings_def
      spec_joinPath_def spec_sanitizePath_def is_separator_def path_arg_def
      string_of_nat.simps [of 0] string_of_nat.simps [of "Suc 0"])

lemma example_resolve_sparse:
  "resolveSceneInfo example_env example_fs ''/app/collections/s1/scenes/sparse.json''
     = Inr example_sparse"
  unfolding resolveSceneInfo_def example_base_dir_other Let_def
  by (simp add: readTextFile_def example_fs_def example_parse_def example_sparse_def
      sceneInfoReviver_def resolveChoices_def resolveDestination_def equalsEnd_def
      example_strings_def)

lemma example_resolve_broken:
  "resolveSceneInfo example_env example_fs ''/app/collections/s1/scenes/broken.json''
     = Inl SyntaxError"
  by (simp add: resolveSceneInfo_def readTextFile_def example_fs_def example_parse_def Let_def)








section \<open>Scanning a collection\<close>







section \<open>Creating a story: what is written\<close>

text \<open>
  C7. For every title, description and author and every identifier drawn,
  \<^verbatim>\<open>createNewStory\<close> takes the directory named by the identifier under the workspace as
  base directory, creates its scenes and resources directories, writes the text of the
  templated story info to the core file, the bundled image to the thumbnail file in
  resources, the texts of the two template scenes to two files in scenes, nothing else,
  and returns the base directory. (Stated where the file system accepts each of these
  six operations.)
\<close>

theorem createNewStory_effects:
  "(let names = fileNames (strings E);
        baseDir = joinPath E (workspacePath E) (JStr uuidDirName);
        scenesDir = joinPath E baseDir (JStr (scenesFolder names));
        resourcesDir = joinPath E baseDir (JStr (resourcesFolder names));
        corePath = joinPath E baseDir (JStr (core names));
        thumbnailPath = joinPath E resourcesDir (JStr (thumbnail names));
        firstPath = joinPath E scenesDir (JStr (firstScene names));
        secondPath = joinPath E scenesDir (JStr (secondScene names))
    in writable fs scenesDir \<and> writable fs resourcesDir \<and> writable fs corePath
       \<and> writable fs thumbnailPath \<and> writable fs firstPath \<and> writable fs secondPath
       \<longrightarrow> createNewStory E fs uuidDirName story_title story_description story_author =
             Inr (fs\<lparr>files := (files fs)
                       (corePath \<mapsto> Text (JSON_text E (serializePlain E
                            (templateStoryInfo E story_title story_description story_author))),
                        thumbnailPath \<mapsto> Binary (bookUint8Array E),
                        firstPath \<mapsto> Text (JSON_text E (serializePlain E (templateSceneInfo1 E))),
                        secondPath \<mapsto> Text (JSON_text E (serializePlain E (templateSceneInfo2 E)))),
                     dirs := insert resourcesDir (insert scenesDir (dirs fs))\<rparr>,
                  baseDir))"
  by (simp add: Let_def createNewStory_def createDir_def writeTextFile_def writeBinaryFile_def)


theorem createNewStory_effects_witness:
  "\<exists>fs'. createNewStory example_env example_fs ''u1'' ''A'' ''B'' ''C'' = Inr (fs', ''/app/workspace/u1'')
      \<and> files fs' ''/app/workspace/u1/core.json'' = Some (Text ''STORY'')
      \<and> files fs' ''/app/workspace/u1/resources/book.png'' = Some (Binary [137, 80, 78, 71])
      \<and> files fs' ''/app/workspace/u1/scenes/first.json'' = Some (Text ''OTHER'')
      \<and> files fs' ''/app/workspace/u1/scenes/second.json'' = Some (Text ''OTHER'')
      \<and> ''/app/workspace/u1/scenes'' \<in> dirs fs' \<and> ''/app/workspace/u1/resources'' \<in> dirs fs'"
proof -
  have w: "writable example_fs p" for p
    by (simp add: example_fs_def)
  have j: "spec_joinPath CHR ''/'' ''/app/workspace'' (JStr ''u1'') = ''/app/workspace/u1''"
    "spec_joinPath CHR ''/'' ''/app/workspace/u1'' (JStr ''scenes'') = ''/app/workspace/u1/scenes''"
    "spec_joinPath CHR ''/'' ''/app/workspace/u1'' (JStr ''resources'') = ''/app/workspace/u1/resources''"
    "spec_joinPath CHR ''/'' ''/app/workspace/u1'' (JStr ''core.json'') = ''/app/workspace/u1/core.json''"
    "spec_joinPath CHR ''/'' ''/app/workspace/u1/resources'' (JStr ''book.png'')
       = ''/app/workspace/u1/resources/book.png''"
    "spec_joinPath CHR ''/'' ''/app/workspace/u1/scenes'' (JStr ''first.json'')
       = ''/app/workspace/u1/scenes/first.json''"
    "spec_joinPath CHR ''/'' ''/app/workspace/u1/scenes'' (JStr ''second.json'')
       = ''/app/workspace/u1/scenes/second.json''"
    by (simp_all add: spec_joinPath_def spec_sanitizePath_def is_separator_def path_arg_def)
  have n: "fileNames example_strings =
      \<lparr>collectionsFolder = ''collections'', workspaceFolder = ''workspace'',
       scenesFolder = ''scenes'', resourcesFolder = ''resources'',
       core = ''core.json'', thumbnail = ''book.png'',
       firstScene = ''first.json'', secondScene = ''second.json''\<rparr>"
    by (simp add: example_strings_def)
  have t: "workspacePath example_env = ''/app/workspace''"
    "bookUint8Array example_env = [137, 80, 78, 71]"
    "JSON_text example_env (serializePlain example_env (templateStoryInfo example_env ''A'' ''B'' ''C''))
       = ''STORY''"
    "JSON_text example_env (serializePlain example_env (templateSceneInfo1 example_env)) = ''OTHER''"
    "JSON_text example_env (serializePlain example_env (templateSceneInfo2 example_env)) = ''OTHER''"
    by (simp_all add: example_env_def spec_utils_def example_story_def example_scene_def)
  from createNewStory_effects [of example_env "''u1''" example_fs "''A''" "''B''" "''C''"]
  show ?thesis
    by (simp add: Let_def w j n t)
qed

section \<open>The base directory of a scene\<close>

lemma split_sep_nonempty: "split_sep c s \<noteq> []"
  by (induction s) (auto split: list.splits)

lemma split_sep_no_sep: "c \<notin> set y \<Longrightarrow> split_sep c y = [y]"
  by (induction y) auto

lemma split_sep_append:
  "c \<notin> set y \<Longrightarrow> split_sep c (x @ c # y) = split_sep c x @ [y]"
proof (induction x)
  case Nil
  then show ?case by (simp add: split_sep_no_sep)
next
  case (Cons a x)
  then show ?case
    using split_sep_nonempty [of c x] by (cases "split_sep c x") auto
qed

lemma join_split_sep: "join_sep c (split_sep c s) = s"
proof (induction s)
  case Nil
  then show ?case by simp
next
  case (Cons a s)
  obtain y ys where y: "split_sep c s = y # ys"
    using split_sep_nonempty [of c s] by (cases "split_sep c s") auto
  with Cons show ?case
    by (cases ys) auto
qed

lemma spec_sanitizePath_unchanged:
  "\<forall>c \<in> set p. \<not> is_separator c \<Longrightarrow> spec_sanitizePath s p = p"
  by (simp add: spec_sanitizePath_def map_idI)

lemma resolveBaseDir_two_components:
  assumes "sanitizePath E scenePath = b @ sep E # folder @ sep E # file"
    and "sep E \<notin> set folder" and "sep E \<notin> set file"
  shows "resolveBaseDirFromScenePath E scenePath = b"
proof -
  have "split_sep (sep E) (b @ sep E # folder @ sep E # file)
          = split_sep (sep E) b @ [folder] @ [file]"
    using split_sep_append [OF assms(3), of "b @ sep E # folder"] split_sep_append [OF assms(2), of b]
    by simp
  then show ?thesis
    by (simp add: resolveBaseDirFromScenePath_def assms(1) butlast_append join_split_sep)
qed

text \<open>
  C9. With the path helpers as the specification describes them: for every base
  directory \<open>b\<close> and every file name \<open>n\<close> (a name has no separator in it, and neither has
  the name of the scenes folder), \<^verbatim>\<open>resolveBaseDirFromScenePath\<close> of the path joined from
  \<open>b\<close>, the scenes folder and \<open>n\<close> is the sanitized \<open>b\<close>: the components of the sanitized
  scene path are those of the sanitized \<open>b\<close> followed by the scenes folder and \<open>n\<close>, and
  exactly these two are dropped.
\<close>

theorem resolveBaseDirFromScenePath_of_joined:
  assumes "is_separator (sep E)"
    and "\<forall>c \<in> set (scenesFolder (fileNames (strings E))). \<not> is_separator c"
    and "\<forall>c \<in> set n. \<not> is_separator c"
  shows "resolveBaseDirFromScenePath (spec_utils E)
           (joinPath (spec_utils E)
              (joinPath (spec_utils E) b (JStr (scenesFolder (fileNames (strings E))))) (JStr n))
         = sanitizePath (spec_utils E) b
       \<and> split_sep (sep E)
           (sanitizePath (spec_utils E)
             (joinPath (spec_utils E)
                (joinPath (spec_utils E) b (JStr (scenesFolder (fileNames (strings E))))) (JStr n)))
         = split_sep (sep E) (sanitizePath (spec_utils E) b)
             @ [scenesFolder (fileNames (strings E)), n]"
proof -
  let ?s = "sep E" and ?f = "scenesFolder (fileNames (strings E))"
  let ?p = "spec_joinPath ?s (spec_joinPath ?s b (JStr ?f)) (JStr n)"
  have f: "?s \<notin> set ?f" and n: "?s \<notin> set n"
    using assms by auto
  have p: "spec_sanitizePath ?s ?p = spec_sanitizePath ?s b @ ?s # ?f @ ?s # n"
    using assms
    by (simp add: spec_joinPath_def path_arg_def spec_sanitizePath_append spec_sanitizePath_Cons
        spec_sanitizePath_idem spec_sanitizePath_unchanged)
  have "resolveBaseDirFromScenePath (spec_utils E) ?p = spec_sanitizePath ?s b"
    using p f n
      resolveBaseDir_two_components [of "spec_utils E" ?p "spec_sanitizePath ?s b" ?f n]
    by simp
  moreover have "split_sep ?s (spec_sanitizePath ?s ?p) = split_sep ?s (spec_sanitizePath ?s b) @ [?f, n]"
    unfolding p
    using split_sep_append [OF n, of "spec_sanitizePath ?s b @ ?s # ?f"]
      split_sep_append [OF f, of "spec_sanitizePath ?s b"]
    by simp
  ultimately show ?thesis
    by simp
qed

theorem resolveBaseDirFromScenePath_of_joined_witness:
  "resolveBaseDirFromScenePath example_env
     (joinPath example_env (joinPath example_env ''/app/collections/s1'' (JStr ''scenes''))
        (JStr ''first.json''))
   = ''/app/collections/s1''"
proof -
  have s: "is_separator (sep example_env)"
    by (simp add: is_separator_def)
  have f: "scenesFolder (fileNames (strings example_env)) = ''scenes''"
    by (simp add: example_strings_def)
  have c: "\<forall>c \<in> set (scenesFolder (fileNames (strings example_env))). \<not> is_separator c"
    unfolding f by (simp add: is_separator_def)
  have n: "\<forall>c \<in> set ''first.json''. \<not> is_separator c"
    by (simp add: is_separator_def)
  have b: "spec_sanitizePath CHR ''/'' ''/app/collections/s1'' = ''/app/collections/s1''"
    by (simp add: spec_sanitizePath_def is_separator_def)
  from resolveBaseDirFromScenePath_of_joined [OF s c n, of "''/app/collections/s1''"]
  show ?thesis
    unfolding f by (simp add: spec_utils_example b)
qed

section \<open>Navigation destinations\<close>

















section \<open>Listing the scenes of a story\<close>

lemma scenesLoop_concat:
  "scenesLoop E fs scenes acc =
     acc @ concat (map (\<lambda>scenePath. case resolveSceneInfo E fs scenePath of
                          Inl e \<Rightarrow> []
                        | Inr sceneInfo \<Rightarrow>
                            [\<lparr>base_scene_info = sceneInfo,
                              scene_name = replace_first ''.json'' [] (getObjFromPath E scenePath),
                              scene_path = scenePath\<rparr>]) scenes)"
  by (induction scenes arbitrary: acc) (auto split: sum.splits)

lemma replace_first_at:
  assumes "pat \<noteq> []"
    and "\<forall>i < length a. take (length pat) (drop i (a @ pat @ r)) \<noteq> pat"
  shows "replace_first pat rep (a @ pat @ r) = a @ rep @ r"
  using assms(2)
proof (induction a)
  case Nil
  from assms(1) obtain c cs where "pat = c # cs" by (cases pat) auto
  then show ?case by simp
next
  case (Cons x a)
  from Cons.prems have 0: "take (length pat) (x # a @ pat @ r) \<noteq> pat"
    by (drule_tac x = 0 in spec) simp
  have "\<forall>i < length a. take (length pat) (drop i (a @ pat @ r)) \<noteq> pat"
  proof (intro allI impI)
    fix i assume "i < length a"
    with Cons.prems show "take (length pat) (drop i (a @ pat @ r)) \<noteq> pat"
      by (drule_tac x = "Suc i" in spec) simp
  qed
  from Cons.IH [OF this] 0 show ?case by simp
qed

lemma example_listing:
  "readDir example_fs (joinPath example_env ''/app/collections/s1''
      (JStr (scenesFolder (fileNames (strings example_env))))) =
     Inr [''/app/collections/s1/scenes/first.json'',
          ''/app/collections/s1/scenes/notes.json.bak.json'',
          ''/app/collections/s1/scenes/broken.json'',
          ''/app/collections/s1/scenes/sparse.json'']"
  by (simp add: readDir_def example_fs_def example_strings_def
      spec_joinPath_def spec_sanitizePath_def is_separator_def path_arg_def)

lemma example_names:
  "replace_first ''.json'' [] (spec_getObjFromPath CHR ''/'' ''/app/collections/s1/scenes/first.json'')
     = ''first''"
  "replace_first ''.json'' []
     (spec_getObjFromPath CHR ''/'' ''/app/collections/s1/scenes/notes.json.bak.json'')
     = ''notes.bak.json''"
  "replace_first ''.json'' [] (spec_getObjFromPath CHR ''/'' ''/app/collections/s1/scenes/sparse.json'')
     = ''sparse''"
  by (simp_all add: spec_getObjFromPath_def spec_sanitizePath_def is_separator_def)

text \<open>
  C10. When the scenes folder can be listed, \<^verbatim>\<open>resolveScenesFromFS\<close> returns, in the order
  of the listing, one \<^verbatim>\<open>ExtraSceneInfo\<close> for each entry that \<^verbatim>\<open>resolveSceneInfo\<close> resolves
  and none for an entry on which it throws. The \<^verbatim>\<open>scene_path\<close> of each is the path of its
  entry, its \<^verbatim>\<open>base_scene_info\<close> is what \<^verbatim>\<open>resolveSceneInfo\<close> returns for the path, and
  its \<^verbatim>\<open>scene_name\<close> is \<^verbatim>\<open>getObjFromPath\<close> of the path with the first occurrence of
  \<^verbatim>\<open>.json\<close> removed: where the object name is \<open>a @ ''.json'' @ r\<close> and \<^verbatim>\<open>.json\<close> does not
  occur earlier, the scene name is \<open>a @ r\<close>, whatever \<open>r\<close> is.
\<close>

theorem resolveScenesFromFS_names:
  assumes "readDir fs (joinPath E baseDir (JStr (scenesFolder (fileNames (strings E))))) = Inr scenes"
  shows "\<exists>sceneInfos.
           resolveScenesFromFS E fs baseDir = Inr sceneInfos
         \<and> sceneInfos =
             concat (map (\<lambda>scenePath. case resolveSceneInfo E fs scenePath of
                            Inl e \<Rightarrow> []
                          | Inr sceneInfo \<Rightarrow>
                              [\<lparr>base_scene_info = sceneInfo,
                                scene_name = replace_first ''.json'' [] (getObjFromPath E scenePath),
                                scene_path = scenePath\<rparr>]) scenes)
         \<and> (\<forall>scenePath \<in> set scenes. \<forall>sceneInfo.
               resolveSceneInfo E fs scenePath = Inr sceneInfo \<longrightarrow>
               \<lparr>base_scene_info = sceneInfo,
                scene_name = replace_first ''.json'' [] (getObjFromPath E scenePath),
                scene_path = scenePath\<rparr> \<in> set sceneInfos)
         \<and> (\<forall>x \<in> set sceneInfos.
               scene_path x \<in> set scenes
             \<and> resolveSceneInfo E fs (scene_path x) = Inr (base_scene_info x)
             \<and> scene_name x = replace_first ''.json'' [] (getObjFromPath E (scene_path x))
             \<and> (\<forall>a r. getObjFromPath E (scene_path x) = a @ ''.json'' @ r
                      \<and> (\<forall>i < length a. take 5 (drop i (a @ ''.json'' @ r)) \<noteq> ''.json'')
                   \<longrightarrow> scene_name x = a @ r))"
proof -
  let ?item = "\<lambda>scenePath sceneInfo.
      \<lparr>base_scene_info = sceneInfo,
       scene_name = replace_first ''.json'' [] (getObjFromPath E scenePath),
       scene_path = scenePath\<rparr>"
  let ?infos = "concat (map (\<lambda>scenePath. case resolveSceneInfo E fs scenePath of
      Inl e \<Rightarrow> [] | Inr sceneInfo \<Rightarrow> [?item scenePath sceneInfo]) scenes)"
  have 1: "resolveScenesFromFS E fs baseDir = Inr ?infos"
    using assms by (simp add: resolveScenesFromFS_def scenesLoop_concat)
  have 2: "?item scenePath sceneInfo \<in> set ?infos"
    if "scenePath \<in> set scenes" "resolveSceneInfo E fs scenePath = Inr sceneInfo"
    for scenePath sceneInfo
    using that by (auto intro!: bexI [of _ scenePath])
  have 3: "scene_path x \<in> set scenes
      \<and> resolveSceneInfo E fs (scene_path x) = Inr (base_scene_info x)
      \<and> scene_name x = replace_first ''.json'' [] (getObjFromPath E (scene_path x))
      \<and> (\<forall>a r. getObjFromPath E (scene_path x) = a @ ''.json'' @ r
               \<and> (\<forall>i < length a. take 5 (drop i (a @ ''.json'' @ r)) \<noteq> ''.json'')
            \<longrightarrow> scene_name x = a @ r)"
    if x: "x \<in> set ?infos" for x
  proof -
    from x obtain scenePath sceneInfo where
        p: "scenePath \<in> set scenes" and i: "resolveSceneInfo E fs scenePath = Inr sceneInfo"
        and e: "x = ?item scenePath sceneInfo"
      by (auto split: sum.splits)
    have n: "scene_name x = replace_first ''.json'' [] (getObjFromPath E (scene_path x))"
      using e by simp
    have "scene_name x = a @ r"
      if g: "getObjFromPath E (scene_path x) = a @ ''.json'' @ r"
        and f: "\<forall>i < length a. take 5 (drop i (a @ ''.json'' @ r)) \<noteq> ''.json''" for a r
    proof -
      have len: "length ''.json'' = 5" by simp
      have "replace_first ''.json'' [] (a @ ''.json'' @ r) = a @ [] @ r"
      proof (rule replace_first_at)
        show "''.json'' \<noteq> []" by simp
        show "\<forall>i < length a. take (length ''.json'') (drop i (a @ ''.json'' @ r)) \<noteq> ''.json''"
          unfolding len by (rule f)
      qed
      with n g show ?thesis by simp
    qed
    with p i e n show ?thesis by auto
  qed
  from 1 2 3 show ?thesis
    by blast
qed

theorem resolveScenesFromFS_names_witness:
  "resolveScenesFromFS example_env example_fs ''/app/collections/s1'' =
     Inr [\<lparr>base_scene_info = example_scene_info, scene_name = ''first'',
           scene_path = ''/app/collections/s1/scenes/first.json''\<rparr>,
          \<lparr>base_scene_info = example_scene_info, scene_name = ''notes.bak.json'',
           scene_path = ''/app/collections/s1/scenes/notes.json.bak.json''\<rparr>,
          \<lparr>base_scene_info = example_sparse, scene_name = ''sparse'',
           scene_path = ''/app/collections/s1/scenes/sparse.json''\<rparr>]"
proof -
  from resolveScenesFromFS_names [OF example_listing]
  show ?thesis
    by (simp add: example_resolve_scene example_resolve_notes example_resolve_broken
        example_resolve_sparse example_names)
qed

end
